theory Spec2Isabelle
  imports Main
begin

section \<open>Python string operations used by the bot\<close>

text \<open>
  A Python \<open>str\<close> is modelled as a list of 8-bit characters, read as the code points
  below 256; code points above that are outside the model. The character classes are
  those of \<open>str.isspace\<close> and \<open>str.isdigit\<close> on that range (the superscript digits
  0xB2, 0xB3 and 0xB9 satisfy \<open>isdigit\<close>, and are refused by \<open>int()\<close>).
\<close>

definition whitespace :: "char list" where
  "whitespace = [CHR 0x09, CHR 0x0A, CHR 0x0B, CHR 0x0C, CHR 0x0D, CHR 0x1C, CHR 0x1D,
                 CHR 0x1E, CHR 0x1F, CHR 0x20, CHR 0x85, CHR 0xA0]"

definition isspace :: "char \<Rightarrow> bool" where
  "isspace c = (c \<in> set whitespace)"

definition strip :: "string \<Rightarrow> string" where
  "strip s = rev (dropWhile isspace (rev (dropWhile isspace s)))"

definition decimal_chars :: "char list" where
  "decimal_chars = ''0123456789''"

definition isdecimal_char :: "char \<Rightarrow> bool" where
  "isdecimal_char c = (c \<in> set decimal_chars)"

definition isdigit_char :: "char \<Rightarrow> bool" where
  "isdigit_char c = (c \<in> set (decimal_chars @ [CHR 0xB2, CHR 0xB3, CHR 0xB9]))"

text \<open>\<open>str.isdigit\<close>: false on the empty string.\<close>

definition isdigit :: "string \<Rightarrow> bool" where
  "isdigit s = (s \<noteq> [] \<and> list_all isdigit_char s)"

definition startswith :: "string \<Rightarrow> string \<Rightarrow> bool" where
  "startswith s p = (take (length p) s = p)"

text \<open>
  \<open>s.replace(old, new)\<close>, scanning left to right without overlap. Every call of the
  source passes a non-empty \<open>old\<close>; an empty one leaves the string as it is here.
\<close>

fun replace :: "string \<Rightarrow> string \<Rightarrow> string \<Rightarrow> string" where
  "replace [] old new = []"
| "replace (c # cs) old new =
     (if old \<noteq> [] \<and> take (length old) (c # cs) = old
      then new @ replace (drop (length old) (c # cs)) old new
      else c # replace cs old new)"

text \<open>
  The characters \<open>int()\<close> skips around a literal: those of \<open>str.strip\<close> without
  0x1C to 0x1F.
\<close>

definition int_whitespace :: "char list" where
  "int_whitespace = [CHR 0x09, CHR 0x0A, CHR 0x0B, CHR 0x0C, CHR 0x0D, CHR 0x20, CHR 0x85, CHR 0xA0]"

definition int_strip :: "string \<Rightarrow> string" where
  "int_strip s = rev (dropWhile (\<lambda>c. c \<in> set int_whitespace)
                   (rev (dropWhile (\<lambda>c. c \<in> set int_whitespace) s)))"

definition digit_value :: "char \<Rightarrow> nat" where
  "digit_value c = of_char c - 48"

text \<open>
  The digits of \<open>int(s)\<close> after the sign: decimal digits, a single underscore allowed
  between two digits. \<open>None\<close> stands for \<open>ValueError\<close>, which a literal of more than
  4300 digits raises too (the default of \<open>sys.set_int_max_str_digits\<close>).
\<close>

fun int_digits :: "nat \<Rightarrow> string \<Rightarrow> nat option" where
  "int_digits acc [] = Some acc"
| "int_digits acc [c] = (if isdecimal_char c then Some (10 * acc + digit_value c) else None)"
| "int_digits acc (c # d # ds) =
     (if isdecimal_char c then int_digits (10 * acc + digit_value c) (d # ds)
      else if c = CHR ''_'' \<and> isdecimal_char d then int_digits (10 * acc + digit_value d) ds
      else None)"

definition py_int :: "string \<Rightarrow> int option" where
  "py_int s =
     (let t = int_strip s;
          neg = startswith t ''-'';
          body = (if startswith t ''-'' \<or> startswith t ''+'' then drop 1 t else t)
      in case body of
           [] \<Rightarrow> None
         | c # cs \<Rightarrow>
             if isdecimal_char c \<and> length (filter isdecimal_char body) \<le> 4300
             then map_option (\<lambda>n. if neg then - int n else int n) (int_digits (digit_value c) cs)
             else None)"

fun str_nat :: "nat \<Rightarrow> string" where
  "str_nat n = (if n < 10 then [decimal_chars ! n]
                else str_nat (n div 10) @ [decimal_chars ! (n mod 10)])"

declare str_nat.simps [simp del]

definition str_int :: "int \<Rightarrow> string" where
  "str_int i = (if i < 0 then CHR ''-'' # str_nat (nat (- i)) else str_nat (nat i))"

section \<open>Configuration\<close>

definition MAIN_ADMIN_ID :: int where
  "MAIN_ADMIN_ID = 7325746010"

section \<open>DatabaseManager\<close>

text \<open>
  The two tables of \<open>init_database\<close>. A \<open>TIMESTAMP DEFAULT CURRENT_TIMESTAMP\<close> column
  holds the clock reading of the insert, a number of seconds; a nullable column is an
  option. \<open>seq\<close> is the counter behind \<open>AUTOINCREMENT\<close>. SQLite does not enforce the
  foreign keys (the pragma is never switched on), so they constrain nothing.
\<close>

record admin_row =
  user_id :: int
  username :: "string option"
  first_name :: "string option"
  added_by :: "int option"
  date_added :: nat

record session_row =
  row_id :: nat
  session_string :: string
  phone_number :: string
  account_name :: "string option"
  created_by :: "int option"
  date_created :: nat

record database =
  admins :: "admin_row list"
  sessions :: "session_row list"
  seq :: nat

text \<open>The dictionaries that \<open>get_admins\<close> and \<open>get_sessions\<close> build from the selected columns.\<close>

record admin_dict =
  d_user_id :: int
  d_username :: "string option"
  d_first_name :: "string option"
  d_date_added :: nat

record session_dict =
  phone :: string
  name :: "string option"
  date :: nat

text \<open>
  An SQLite INTEGER is a signed 64-bit value: binding a Python int outside that range
  raises \<open>OverflowError\<close>, which every method catches like a storage error.
\<close>

definition sqlite_int :: "int \<Rightarrow> bool" where
  "sqlite_int i = (- (2 ^ 63) \<le> i \<and> i < 2 ^ 63)"

definition empty_database :: database where
  "empty_database = \<lparr>admins = [], sessions = [], seq = 0\<rparr>"

text \<open>
  Every method takes \<open>ok\<close>, whether the storage layer serves this call; when it does
  not, sqlite3 raises inside the method's \<open>try\<close>, the transaction is rolled back and the
  \<open>except\<close> branch returns. These functions give what a method returns and the store
  it leaves; the \<open>logger.error\<close> of the \<open>except\<close> branch is written to the trace where a
  handler calls the method (\<open>db_is_admin\<close> and the like, below). \<open>now\<close> is the clock
  reading for \<open>CURRENT_TIMESTAMP\<close>. \<open>init_database\<close> re-raises: \<open>None\<close> is that
  exception.
\<close>

definition init_database :: "bool \<Rightarrow> nat \<Rightarrow> database \<Rightarrow> database option" where
  "init_database ok now db =
     (if ok then
        Some (if list_ex (\<lambda>r. user_id r = MAIN_ADMIN_ID) (admins db) then db
              else db\<lparr>admins := admins db @
                     [\<lparr>user_id = MAIN_ADMIN_ID, username = Some ''main_admin'',
                       first_name = Some ''Main Admin'', added_by = Some MAIN_ADMIN_ID,
                       date_added = now\<rparr>]\<rparr>)
      else None)"

definition is_admin :: "bool \<Rightarrow> database \<Rightarrow> int \<Rightarrow> bool" where
  "is_admin ok db uid =
     (if ok \<and> sqlite_int uid then list_ex (\<lambda>r. user_id r = uid) (admins db) else False)"

text \<open>\<open>INSERT OR REPLACE\<close>: a row with the same primary key is deleted, then the new row inserted.\<close>

definition add_admin ::
  "bool \<Rightarrow> nat \<Rightarrow> database \<Rightarrow> int \<Rightarrow> string option \<Rightarrow> string option \<Rightarrow> int option
     \<Rightarrow> bool \<times> database" where
  "add_admin ok now db uid uname fname adder =
     (if ok \<and> sqlite_int uid \<and> (case adder of None \<Rightarrow> True | Some b \<Rightarrow> sqlite_int b) then
        (True, db\<lparr>admins := filter (\<lambda>r. user_id r \<noteq> uid) (admins db) @
                     [\<lparr>user_id = uid, username = uname, first_name = fname, added_by = adder,
                       date_added = now\<rparr>]\<rparr>)
      else (False, db))"

text \<open>\<open>DELETE FROM admins WHERE user_id = ? AND user_id != MAIN_ADMIN_ID\<close>; the result is \<open>rowcount > 0\<close>.\<close>

definition remove_admin :: "bool \<Rightarrow> database \<Rightarrow> int \<Rightarrow> bool \<times> database" where
  "remove_admin ok db uid =
     (if ok \<and> sqlite_int uid then
        (list_ex (\<lambda>r. user_id r = uid \<and> user_id r \<noteq> MAIN_ADMIN_ID) (admins db),
         db\<lparr>admins := filter (\<lambda>r. \<not> (user_id r = uid \<and> user_id r \<noteq> MAIN_ADMIN_ID)) (admins db)\<rparr>)
      else (False, db))"

text \<open>
  \<open>ORDER BY date_added\<close>. \<open>user_id\<close> is the table's rowid, so the rows are scanned by
  ascending \<open>user_id\<close> and rows with equal timestamps come in that order.
\<close>

definition get_admins :: "bool \<Rightarrow> database \<Rightarrow> admin_dict list" where
  "get_admins ok db =
     (if ok then
        map (\<lambda>r. \<lparr>d_user_id = user_id r, d_username = username r, d_first_name = first_name r,
                  d_date_added = date_added r\<rparr>)
            (sort_key date_added (sort_key user_id (admins db)))
      else [])"

definition save_session ::
  "bool \<Rightarrow> nat \<Rightarrow> database \<Rightarrow> string \<Rightarrow> string \<Rightarrow> string option \<Rightarrow> int option
     \<Rightarrow> bool \<times> database" where
  "save_session ok now db s ph acct creator =
     (if ok \<and> (case creator of None \<Rightarrow> True | Some b \<Rightarrow> sqlite_int b) then
        (True, db\<lparr>sessions := sessions db @
                     [\<lparr>row_id = Suc (seq db), session_string = s, phone_number = ph,
                       account_name = acct, created_by = creator, date_created = now\<rparr>],
                   seq := Suc (seq db)\<rparr>)
      else (False, db))"

text \<open>The three columns both queries of \<open>get_sessions\<close> select, \<open>ORDER BY date_created DESC\<close>.\<close>

definition select_sessions :: "session_row list \<Rightarrow> session_dict list" where
  "select_sessions rows =
     map (\<lambda>r. \<lparr>phone = phone_number r, name = account_name r, date = date_created r\<rparr>)
         (sort_key (\<lambda>r. - int (date_created r)) rows)"

text \<open>\<open>if created_by:\<close> is Python truthiness: \<open>None\<close> and \<open>0\<close> both take the unfiltered query.\<close>

definition get_sessions :: "bool \<Rightarrow> database \<Rightarrow> int option \<Rightarrow> session_dict list" where
  "get_sessions ok db creator =
     (if ok then
        (case creator of
           None \<Rightarrow> select_sessions (sessions db)
         | Some c \<Rightarrow>
             if c = 0 then select_sessions (sessions db)
             else if sqlite_int c
               then select_sessions (filter (\<lambda>r. created_by r = Some c) (sessions db))
               else [])
      else [])"

text \<open>
  The stores the program can hold: the bootstrap of \<open>init_database\<close> on an empty file,
  followed by any calls of the mutating methods, served or not.
\<close>

inductive reachable_db :: "database \<Rightarrow> bool" where
  boot: "init_database True now empty_database = Some db \<Longrightarrow> reachable_db db"
| reinit: "reachable_db db \<Longrightarrow> init_database True now db = Some db' \<Longrightarrow> reachable_db db'"
| added: "reachable_db db \<Longrightarrow> reachable_db (snd (add_admin ok now db uid un fn adder))"
| removed: "reachable_db db \<Longrightarrow> reachable_db (snd (remove_admin ok db uid))"
| saved: "reachable_db db \<Longrightarrow> reachable_db (snd (save_session ok now db s ph acct creator))"

section \<open>Updates, outbound calls and the outside world\<close>

text \<open>
  The sender of an update (\<open>effective_user\<close>, \<open>query.from_user\<close>), and the forwarding
  metadata \<open>process_admin_id_input\<close> reads: \<open>forward_from\<close>, or \<open>forward_origin\<close> with or
  without a \<open>sender_user\<close>.
\<close>

record tg_user =
  tg_id :: int
  tg_username :: "string option"
  tg_first_name :: "string option"

datatype forward = NotForwarded | ForwardFrom tg_user | ForwardOrigin "tg_user option"

text \<open>What \<open>get_me\<close> returns.\<close>

record me =
  me_first_name :: "string option"
  me_last_name :: "string option"
  me_username :: "string option"

text \<open>
  The exceptions the handlers tell apart, each with its \<open>str(e)\<close>; every other
  exception is \<open>OtherError\<close>.
\<close>

datatype exn =
    SessionPasswordNeededError string
  | PhoneCodeInvalidError string
  | PasswordHashInvalidError string
  | ValueError string
  | OtherError string

text \<open>\<open>str(e)\<close>.\<close>

definition exn_text :: "exn \<Rightarrow> string" where
  "exn_text x =
     (case x of
        SessionPasswordNeededError t \<Rightarrow> t
      | PhoneCodeInvalidError t \<Rightarrow> t
      | PasswordHashInvalidError t \<Rightarrow> t
      | ValueError t \<Rightarrow> t
      | OtherError t \<Rightarrow> t)"

text \<open>
  The text of every message the bot sends, as its template and the values the f-string
  interpolates. A keyboard is the list of the \<open>callback_data\<close> of its buttons; button
  labels are left out.
\<close>

datatype message =
    Welcome bool
  | ChooseOption
  | PhonePrompt
  | NoSessions
  | SessionList "(string \<times> string \<times> nat) list"
  | AddAdminPrompt
  | NoRemovableAdmins
  | SelectAdminToRemove
  | AdminRemoved int
  | RemoveFailed
  | InvalidPhoneFormat
  | Connecting
  | CodeSent
  | ErrorSendingCode string
  | InvalidCodeFormat
  | SessionExpired
  | Authenticating
  | AuthenticationFailed
  | TwoFARequired
  | InvalidVerificationCode
  | Verifying2FA
  | Invalid2FAPassword
  | InvalidUserIdFormat
  | CouldNotExtractUserId
  | AlreadyAdmin
  | AdminAdded int string string
  | AddFailed
  | SessionGenerated string string string
  | SessionBackupAlert string string string int nat string
  | SelfGeneratedSession string string nat string
  | SaveFailed
  | ErrorGeneratingSession string

datatype provider_call =
    Connect nat
  | SendCodeRequest nat string
  | SignInCode nat string string
  | SignInPassword nat string
  | IsUserAuthorized nat
  | GetMe nat
  | Disconnect nat

datatype log_level = INFO | WARNING | ERROR

text \<open>
  Everything a handler does to the outside, in order. \<open>Answer\<close> is \<open>query.answer()\<close>, the
  empty acknowledgement of a button press; \<open>Reply\<close>, \<open>Edit\<close> and \<open>Send\<close> are the messages
  (\<open>reply_text\<close>, \<open>edit_message_text\<close>/\<open>edit_text\<close>, \<open>bot.send_message\<close>) with the chat
  they go to; \<open>Undelivered\<close> is a Bot API call that raised. Conversations are private
  chats: a reply goes to the sender. A log entry keeps the fixed part of its text.
\<close>

datatype effect =
    Answer int
  | Reply int message "string list"
  | Edit int message "string list"
  | Send int message
  | Undelivered effect
  | Provider provider_call
  | Log log_level string

text \<open>
  The Bot API calls of one update, by method; no handler path calls the same method
  twice, except that an \<open>except\<close> clause may edit the status message again.
\<close>

datatype bot_call = AnswerQuery | ReplyText | EditMessageText | EditText | EditTextInExcept | SendMessage

datatype db_call = IsAdmin | IsAdminCandidate | AddAdmin | RemoveAdmin | GetAdmins | SaveSession | GetSessions

text \<open>
  What the outside world decides while one update is handled: the clock of the database,
  the date of the message, which storage calls are served, which Bot API calls raise (with
  the text of the exception), and what each call of the provider's client does.
\<close>

record env =
  clock :: nat
  message_date :: nat
  storage_ok :: "db_call \<Rightarrow> bool"
  bot_fail :: "bot_call \<Rightarrow> string option"
  on_connect :: "exn option"
  on_send_code_request :: "exn option"
  on_sign_in :: "exn option"
  on_is_user_authorized :: "exn + bool"
  on_session_save :: string
  on_get_me :: "exn + me"
  on_disconnect :: "exn option"

section \<open>State of the bot\<close>

text \<open>
  \<open>context.user_data\<close> of one user. A flag that was never set reads as false
  (\<open>.get\<close> returns \<open>None\<close>); \<open>temp_client\<close> and \<open>phone\<close> are absent until stored.
\<close>

record udata =
  expecting_phone :: bool
  expecting_code :: bool
  expecting_2fa :: bool
  expecting_admin_id :: bool
  temp_client :: "nat option"
  ud_phone :: "string option"

definition empty_udata :: udata where
  "empty_udata = \<lparr>expecting_phone = False, expecting_code = False, expecting_2fa = False,
                   expecting_admin_id = False, temp_client = None, ud_phone = None\<rparr>"

text \<open>
  The database, the user data of every user, the number of \<open>TelegramClient\<close> objects
  created so far (a client is named by its number), the clients whose connection is
  open, and the trace of effects.
\<close>

record world =
  db :: database
  user_data :: "int \<Rightarrow> udata"
  clients :: nat
  connected :: "nat list"
  trace :: "effect list"

definition initial_world :: "database \<Rightarrow> world" where
  "initial_world d = \<lparr>db = d, user_data = (\<lambda>_. empty_udata), clients = 0, connected = [],
                       trace = []\<rparr>"

text \<open>The state of the conversation, read off the flags in the order \<open>handle_message\<close> tests them.\<close>

datatype conversation_state = Idle | AwaitingPhone | AwaitingCode | AwaitingTwoFactor | AwaitingAdminID

definition state_of :: "udata \<Rightarrow> conversation_state" where
  "state_of ud =
     (if expecting_phone ud then AwaitingPhone
      else if expecting_code ud then AwaitingCode
      else if expecting_2fa ud then AwaitingTwoFactor
      else if expecting_admin_id ud then AwaitingAdminID
      else Idle)"

section \<open>Statements, exceptions and calls\<close>

text \<open>
  A statement maps the world to the exception it raised, if any, and the world it
  leaves. \<open>block\<close> runs statements in order up to the first that raises;
  \<open>try_except\<close> is \<open>try: ... except Exception as x: ...\<close>.
\<close>

type_synonym step = "world \<Rightarrow> exn option \<times> world"

definition skip :: step where
  "skip w = (None, w)"

definition raise :: "exn \<Rightarrow> step" where
  "raise x w = (Some x, w)"

definition modify :: "(world \<Rightarrow> world) \<Rightarrow> step" where
  "modify f w = (None, f w)"

definition emit :: "effect \<Rightarrow> step" where
  "emit a w = (None, w\<lparr>trace := trace w @ [a]\<rparr>)"

fun block :: "step list \<Rightarrow> step" where
  "block [] w = (None, w)"
| "block (s # ss) w = (case s w of (None, w') \<Rightarrow> block ss w' | (Some x, w') \<Rightarrow> (Some x, w'))"

definition try_except :: "step \<Rightarrow> (exn \<Rightarrow> step) \<Rightarrow> step" where
  "try_except body handler w =
     (case body w of (None, w') \<Rightarrow> (None, w') | (Some x, w') \<Rightarrow> handler x w')"

definition set_user_data :: "int \<Rightarrow> (udata \<Rightarrow> udata) \<Rightarrow> step" where
  "set_user_data uid f = modify (\<lambda>w. w\<lparr>user_data := (user_data w)(uid := f (user_data w uid))\<rparr>)"

definition bot_api :: "env \<Rightarrow> bot_call \<Rightarrow> effect \<Rightarrow> step" where
  "bot_api e c a =
     (case bot_fail e c of
        None \<Rightarrow> emit a
      | Some t \<Rightarrow> block [emit (Undelivered a), raise (OtherError t)])"

definition provider :: "provider_call \<Rightarrow> exn option \<Rightarrow> step" where
  "provider c r = block [emit (Provider c), (case r of None \<Rightarrow> skip | Some x \<Rightarrow> raise x)]"

definition client_connect :: "env \<Rightarrow> nat \<Rightarrow> step" where
  "client_connect e c =
     block [provider (Connect c) (on_connect e),
            modify (\<lambda>w. w\<lparr>connected := connected w @ [c]\<rparr>)]"

definition client_disconnect :: "env \<Rightarrow> nat \<Rightarrow> step" where
  "client_disconnect e c =
     block [provider (Disconnect c) (on_disconnect e),
            modify (\<lambda>w. w\<lparr>connected := removeAll c (connected w)\<rparr>)]"

text \<open>\<open>x or d\<close> on an optional string: \<open>None\<close> and the empty string are both falsy.\<close>

definition or_str :: "string option \<Rightarrow> string \<Rightarrow> string" where
  "or_str x d = (case x of None \<Rightarrow> d | Some t \<Rightarrow> if t = [] then d else t)"

text \<open>
  A handler's call of a \<open>DatabaseManager\<close> method: the result of the method, the store it
  leaves, and the \<open>logger.error\<close> of its \<open>except\<close> branch, which runs when sqlite3 raised
  inside the method (the storage did not serve the call, or an identity is no SQLite
  INTEGER).
\<close>

definition db_is_admin :: "env \<Rightarrow> db_call \<Rightarrow> int \<Rightarrow> world \<Rightarrow> bool \<times> world" where
  "db_is_admin e c uid w =
     (is_admin (storage_ok e c) (db w) uid,
      if storage_ok e c \<and> sqlite_int uid then w
      else w\<lparr>trace := trace w @ [Log ERROR ''Error checking admin status'']\<rparr>)"

definition db_add_admin ::
  "env \<Rightarrow> int \<Rightarrow> string option \<Rightarrow> string option \<Rightarrow> int \<Rightarrow> world \<Rightarrow> bool \<times> world" where
  "db_add_admin e uid uname fname adder w =
     (let r = add_admin (storage_ok e AddAdmin) (clock e) (db w) uid uname fname (Some adder)
      in (fst r,
          if fst r then w\<lparr>db := snd r\<rparr>
          else w\<lparr>trace := trace w @ [Log ERROR ''Error adding admin'']\<rparr>))"

definition db_remove_admin :: "env \<Rightarrow> int \<Rightarrow> world \<Rightarrow> bool \<times> world" where
  "db_remove_admin e uid w =
     (let r = remove_admin (storage_ok e RemoveAdmin) (db w) uid
      in (fst r,
          if storage_ok e RemoveAdmin \<and> sqlite_int uid then w\<lparr>db := snd r\<rparr>
          else w\<lparr>trace := trace w @ [Log ERROR ''Error removing admin'']\<rparr>))"

definition db_get_admins :: "env \<Rightarrow> world \<Rightarrow> admin_dict list \<times> world" where
  "db_get_admins e w =
     (get_admins (storage_ok e GetAdmins) (db w),
      if storage_ok e GetAdmins then w
      else w\<lparr>trace := trace w @ [Log ERROR ''Error getting admins'']\<rparr>)"

definition db_save_session ::
  "env \<Rightarrow> string \<Rightarrow> string \<Rightarrow> string \<Rightarrow> int \<Rightarrow> world \<Rightarrow> bool \<times> world" where
  "db_save_session e s ph acct creator w =
     (let r = save_session (storage_ok e SaveSession) (clock e) (db w) s ph (Some acct) (Some creator)
      in (fst r,
          if fst r then w\<lparr>db := snd r\<rparr>
          else w\<lparr>trace := trace w @ [Log ERROR ''Error saving session'']\<rparr>))"

definition db_get_sessions :: "env \<Rightarrow> int \<Rightarrow> world \<Rightarrow> session_dict list \<times> world" where
  "db_get_sessions e creator w =
     (get_sessions (storage_ok e GetSessions) (db w) (Some creator),
      if storage_ok e GetSessions \<and> sqlite_int creator then w
      else w\<lparr>trace := trace w @ [Log ERROR ''Error getting sessions'']\<rparr>)"

section \<open>SessionGeneratorBot\<close>

definition get_main_keyboard :: "int \<Rightarrow> string list" where
  "get_main_keyboard uid =
     [''generate_session'', ''list_sessions''] @
     (if uid = MAIN_ADMIN_ID then [''add_admin'', ''remove_admin''] else [])"

definition start_command :: "env \<Rightarrow> tg_user \<Rightarrow> step" where
  "start_command e u =
     try_except
       (\<lambda>w. case db_is_admin e IsAdmin (tg_id u) w of
               (admin, w') \<Rightarrow>
                 if admin
                 then bot_api e ReplyText
                        (Reply (tg_id u) (Welcome (tg_id u = MAIN_ADMIN_ID))
                           (get_main_keyboard (tg_id u))) w'
                 else emit (Log INFO ''Non-admin user attempted to access bot'') w')
       (\<lambda>x. emit (Log ERROR ''Error in start command''))"

definition handle_generate_session :: "env \<Rightarrow> tg_user \<Rightarrow> step" where
  "handle_generate_session e u =
     try_except
       (block [bot_api e EditMessageText (Edit (tg_id u) PhonePrompt [''back_to_main'']),
               set_user_data (tg_id u) (\<lambda>ud. ud\<lparr>expecting_phone := True\<rparr>)])
       (\<lambda>x. emit (Log ERROR ''Error in handle_generate_session''))"

definition handle_list_sessions :: "env \<Rightarrow> tg_user \<Rightarrow> step" where
  "handle_list_sessions e u =
     try_except
       (\<lambda>w. case db_get_sessions e (tg_id u) w of
               (found, w') \<Rightarrow>
                 if found = []
                 then bot_api e EditMessageText (Edit (tg_id u) NoSessions [''back_to_main'']) w'
                 else bot_api e EditMessageText
                        (Edit (tg_id u)
                           (SessionList
                              (map (\<lambda>s. (or_str (name s) ''Unnamed'', phone s, date s)) found))
                           [''back_to_main'']) w')
       (\<lambda>x. emit (Log ERROR ''Error in handle_list_sessions''))"

definition handle_add_admin :: "env \<Rightarrow> tg_user \<Rightarrow> step" where
  "handle_add_admin e u =
     try_except
       (block [bot_api e EditMessageText (Edit (tg_id u) AddAdminPrompt [''back_to_main'']),
               set_user_data (tg_id u) (\<lambda>ud. ud\<lparr>expecting_admin_id := True\<rparr>)])
       (\<lambda>x. emit (Log ERROR ''Error in handle_add_admin''))"

definition handle_remove_admin :: "env \<Rightarrow> tg_user \<Rightarrow> step" where
  "handle_remove_admin e u =
     try_except
       (\<lambda>w. case db_get_admins e w of
               (found, w') \<Rightarrow>
                 (let removable_admins = filter (\<lambda>a. d_user_id a \<noteq> MAIN_ADMIN_ID) found
                  in if removable_admins = []
                     then bot_api e EditMessageText
                            (Edit (tg_id u) NoRemovableAdmins [''back_to_main'']) w'
                     else bot_api e EditMessageText
                            (Edit (tg_id u) SelectAdminToRemove
                               (map (\<lambda>a. ''remove_admin_'' @ str_int (d_user_id a)) removable_admins @
                                [''back_to_main''])) w'))
       (\<lambda>x. emit (Log ERROR ''Error in handle_remove_admin''))"

definition confirm_remove_admin :: "env \<Rightarrow> tg_user \<Rightarrow> int \<Rightarrow> step" where
  "confirm_remove_admin e u admin_id =
     try_except
       (\<lambda>w. case db_remove_admin e admin_id w of
               (removed, w') \<Rightarrow>
                 if removed
                 then block [bot_api e EditMessageText
                               (Edit (tg_id u) (AdminRemoved admin_id) [''back_to_main'']),
                             emit (Log INFO ''Admin removed'')] w'
                 else bot_api e EditMessageText (Edit (tg_id u) RemoveFailed [''back_to_main'']) w')
       (\<lambda>x. emit (Log ERROR ''Error in confirm_remove_admin''))"

text \<open>
  \<open>query.answer()\<close> comes before the admin check. \<open>int(...)\<close> on the rest of a
  \<open>remove_admin_\<close> payload may raise \<open>ValueError\<close>, caught by the outer \<open>except\<close>; its
  text reaches the log only, and the fixed part of it is kept.
\<close>

definition button_callback :: "env \<Rightarrow> tg_user \<Rightarrow> string \<Rightarrow> step" where
  "button_callback e u data =
     try_except
       (block
          [bot_api e AnswerQuery (Answer (tg_id u)),
           (\<lambda>w. case db_is_admin e IsAdmin (tg_id u) w of
                   (admin, w') \<Rightarrow>
                     if admin then
                       (if data = ''generate_session'' then handle_generate_session e u w'
                        else if data = ''list_sessions'' then handle_list_sessions e u w'
                        else if data = ''add_admin'' \<and> tg_id u = MAIN_ADMIN_ID
                          then handle_add_admin e u w'
                        else if data = ''remove_admin'' \<and> tg_id u = MAIN_ADMIN_ID
                          then handle_remove_admin e u w'
                        else if startswith data ''remove_admin_'' then
                          (case py_int (replace data ''remove_admin_'' []) of
                             None \<Rightarrow> raise (ValueError ''invalid literal for int() with base 10'') w'
                           | Some admin_id \<Rightarrow> confirm_remove_admin e u admin_id w')
                        else if data = ''back_to_main''
                          then bot_api e EditMessageText
                                 (Edit (tg_id u) ChooseOption (get_main_keyboard (tg_id u))) w'
                        else skip w')
                     else skip w')])
       (\<lambda>x. emit (Log ERROR ''Error in button callback''))"

text \<open>
  \<open>account_name\<close>: first and last name joined by a space and stripped, else the
  username, else \<open>Unknown\<close>.
\<close>

definition account_name_of :: "me \<Rightarrow> string" where
  "account_name_of m =
     (let joined = strip (or_str (me_first_name m) [] @ '' '' @ or_str (me_last_name m) [])
      in if joined = [] then or_str (me_username m) ''Unknown'' else joined)"

definition complete_session_generation :: "env \<Rightarrow> tg_user \<Rightarrow> nat \<Rightarrow> string \<Rightarrow> step" where
  "complete_session_generation e u client ph =
     try_except
       (block
          [emit (Provider (GetMe client)),
           (case on_get_me e of
              Inl x \<Rightarrow> raise x
            | Inr m \<Rightarrow>
                block
                  [client_disconnect e client,
                   set_user_data (tg_id u) (\<lambda>ud. ud\<lparr>temp_client := None\<rparr>),
                   (\<lambda>w. case db_save_session e (on_session_save e) ph (account_name_of m)
                                (tg_id u) w of
                           (success, w') \<Rightarrow>
                               (if success then
                                  block
                                    [bot_api e EditText
                                       (Edit (tg_id u)
                                          (SessionGenerated (account_name_of m) ph (on_session_save e))
                                          [''back_to_main'']),
                                     (if tg_id u \<noteq> MAIN_ADMIN_ID then
                                        try_except
                                          (block
                                             [bot_api e SendMessage
                                                (Send MAIN_ADMIN_ID
                                                   (SessionBackupAlert (account_name_of m) ph
                                                      (or_str (tg_first_name u) ''Unknown'') (tg_id u)
                                                      (message_date e) (on_session_save e))),
                                              emit (Log INFO ''Session backup sent to main admin'')])
                                          (\<lambda>x. emit (Log WARNING ''Failed to send backup to main admin''))
                                      else
                                        try_except
                                          (bot_api e SendMessage
                                             (Send MAIN_ADMIN_ID
                                                (SelfGeneratedSession (account_name_of m) ph
                                                   (message_date e) (on_session_save e))))
                                          (\<lambda>x. emit (Log WARNING ''Failed to send self-backup''))),
                                     emit (Log INFO ''Session generated'')]
                                else bot_api e EditText (Edit (tg_id u) SaveFailed [''back_to_main'']))
                                 w')])])
       (\<lambda>x. block
               [emit (Log ERROR ''Error in complete_session_generation''),
                try_except
                  (bot_api e EditTextInExcept
                     (Edit (tg_id u) (ErrorGeneratingSession (exn_text x)) [''back_to_main'']))
                  (\<lambda>y. skip)])"

definition process_phone_input :: "env \<Rightarrow> tg_user \<Rightarrow> string \<Rightarrow> step" where
  "process_phone_input e u text =
     try_except
       (block
          [set_user_data (tg_id u) (\<lambda>ud. ud\<lparr>expecting_phone := False\<rparr>),
           (let ph = strip text
            in if \<not> startswith ph ''+'' \<or> \<not> isdigit (replace (drop 1 ph) '' '' []) then
                 bot_api e ReplyText (Reply (tg_id u) InvalidPhoneFormat [''back_to_main''])
               else
                 (let ph = replace (replace ph '' '' []) ''-'' []
                  in block
                       [bot_api e ReplyText (Reply (tg_id u) Connecting []),
                        try_except
                          (\<lambda>w. let client = clients w
                                in block
                                     [modify (\<lambda>w. w\<lparr>clients := Suc (clients w)\<rparr>),
                                      client_connect e client,
                                      provider (SendCodeRequest client ph) (on_send_code_request e),
                                      set_user_data (tg_id u)
                                        (\<lambda>ud. ud\<lparr>temp_client := Some client, ud_phone := Some ph\<rparr>),
                                      bot_api e EditText (Edit (tg_id u) CodeSent [''back_to_main'']),
                                      set_user_data (tg_id u) (\<lambda>ud. ud\<lparr>expecting_code := True\<rparr>)] w)
                          (\<lambda>x. bot_api e EditTextInExcept
                                  (Edit (tg_id u) (ErrorSendingCode (exn_text x)) [''back_to_main'']))]))])
       (\<lambda>x. emit (Log ERROR ''Error in process_phone_input''))"

text \<open>
  \<open>client.is_user_authorized()\<close> and what follows it in \<open>process_code_input\<close> and
  \<open>process_2fa_input\<close>.
\<close>

definition check_authorized :: "env \<Rightarrow> tg_user \<Rightarrow> nat \<Rightarrow> string \<Rightarrow> step" where
  "check_authorized e u client ph =
     block
       [emit (Provider (IsUserAuthorized client)),
        (case on_is_user_authorized e of
           Inl x \<Rightarrow> raise x
         | Inr authorized \<Rightarrow>
             if authorized then complete_session_generation e u client ph
             else bot_api e EditText (Edit (tg_id u) AuthenticationFailed [''back_to_main'']))]"

text \<open>\<open>if not client or not phone\<close>: a missing value, and the empty string, are falsy.\<close>

definition stored_flow :: "udata \<Rightarrow> (nat \<times> string) option" where
  "stored_flow ud =
     (case temp_client ud of
        None \<Rightarrow> None
      | Some client \<Rightarrow>
          (case ud_phone ud of
             None \<Rightarrow> None
           | Some ph \<Rightarrow> if ph = [] then None else Some (client, ph)))"

definition process_code_input :: "env \<Rightarrow> tg_user \<Rightarrow> string \<Rightarrow> step" where
  "process_code_input e u text =
     try_except
       (block
          [set_user_data (tg_id u) (\<lambda>ud. ud\<lparr>expecting_code := False\<rparr>),
           (let code = strip (replace text '' '' [])
            in if \<not> isdigit code then
                 block [bot_api e ReplyText (Reply (tg_id u) InvalidCodeFormat [''back_to_main'']),
                        set_user_data (tg_id u) (\<lambda>ud. ud\<lparr>expecting_code := True\<rparr>)]
               else
                 (\<lambda>w. case stored_flow (user_data w (tg_id u)) of
                         None \<Rightarrow> bot_api e ReplyText (Reply (tg_id u) SessionExpired [''back_to_main'']) w
                       | Some (client, ph) \<Rightarrow>
                           block
                             [bot_api e ReplyText (Reply (tg_id u) Authenticating []),
                              try_except
                                (block [provider (SignInCode client ph code) (on_sign_in e),
                                        check_authorized e u client ph])
                                (\<lambda>x. case x of
                                        SessionPasswordNeededError t \<Rightarrow>
                                          block [bot_api e EditText
                                                   (Edit (tg_id u) TwoFARequired [''back_to_main'']),
                                                 set_user_data (tg_id u)
                                                   (\<lambda>ud. ud\<lparr>expecting_2fa := True\<rparr>)]
                                      | PhoneCodeInvalidError t \<Rightarrow>
                                          block [bot_api e EditText
                                                   (Edit (tg_id u) InvalidVerificationCode
                                                      [''back_to_main'']),
                                                 set_user_data (tg_id u)
                                                   (\<lambda>ud. ud\<lparr>expecting_code := True\<rparr>)]
                                      | _ \<Rightarrow> raise x)] w))])
       (\<lambda>x. emit (Log ERROR ''Error in process_code_input''))"

definition process_2fa_input :: "env \<Rightarrow> tg_user \<Rightarrow> string \<Rightarrow> step" where
  "process_2fa_input e u password =
     try_except
       (block
          [set_user_data (tg_id u) (\<lambda>ud. ud\<lparr>expecting_2fa := False\<rparr>),
           (\<lambda>w. case stored_flow (user_data w (tg_id u)) of
                   None \<Rightarrow> bot_api e ReplyText (Reply (tg_id u) SessionExpired [''back_to_main'']) w
                 | Some (client, ph) \<Rightarrow>
                     block
                       [bot_api e ReplyText (Reply (tg_id u) Verifying2FA []),
                        try_except
                          (block [provider (SignInPassword client password) (on_sign_in e),
                                  check_authorized e u client ph])
                          (\<lambda>x. case x of
                                  PasswordHashInvalidError t \<Rightarrow>
                                    block [bot_api e EditText
                                             (Edit (tg_id u) Invalid2FAPassword [''back_to_main'']),
                                           set_user_data (tg_id u)
                                             (\<lambda>ud. ud\<lparr>expecting_2fa := True\<rparr>)]
                                | _ \<Rightarrow> raise x)] w)])
       (\<lambda>x. emit (Log ERROR ''Error in process_2fa_input''))"

text \<open>
  The identity \<open>process_admin_id_input\<close> extracts: from the forwarding metadata when
  there is some, else \<open>int(text.strip())\<close>, whose \<open>ValueError\<close> is \<open>Inl\<close>.
\<close>

definition extract_admin ::
  "string \<Rightarrow> forward \<Rightarrow> unit + (int option \<times> string option \<times> string option)" where
  "extract_admin text fwd =
     (case fwd of
        ForwardFrom f \<Rightarrow> Inr (Some (tg_id f), tg_username f, tg_first_name f)
      | ForwardOrigin (Some f) \<Rightarrow> Inr (Some (tg_id f), tg_username f, tg_first_name f)
      | ForwardOrigin None \<Rightarrow> Inr (None, None, None)
      | NotForwarded \<Rightarrow>
          (case py_int (strip text) of None \<Rightarrow> Inl () | Some i \<Rightarrow> Inr (Some i, None, None)))"

definition process_admin_id_input :: "env \<Rightarrow> tg_user \<Rightarrow> string \<Rightarrow> forward \<Rightarrow> step" where
  "process_admin_id_input e u text fwd =
     try_except
       (block
          [set_user_data (tg_id u) (\<lambda>ud. ud\<lparr>expecting_admin_id := False\<rparr>),
           (case extract_admin text fwd of
              Inl _ \<Rightarrow> bot_api e ReplyText (Reply (tg_id u) InvalidUserIdFormat [''back_to_main''])
            | Inr (new_admin_id, uname, fname) \<Rightarrow>
                (case new_admin_id of
                   None \<Rightarrow> bot_api e ReplyText (Reply (tg_id u) CouldNotExtractUserId [''back_to_main''])
                 | Some new_id \<Rightarrow>
                     if new_id = 0
                       then bot_api e ReplyText (Reply (tg_id u) CouldNotExtractUserId [''back_to_main''])
                     else
                       (\<lambda>w. case db_is_admin e IsAdminCandidate new_id w of
                               (already, w') \<Rightarrow>
                                 if already
                                 then bot_api e ReplyText
                                        (Reply (tg_id u) AlreadyAdmin [''back_to_main'']) w'
                                 else
                                   (case db_add_admin e new_id uname fname (tg_id u) w' of
                                      (success, w'') \<Rightarrow>
                                        if success then
                                          block [bot_api e ReplyText
                                                   (Reply (tg_id u)
                                                      (AdminAdded new_id (or_str fname ''Unknown'')
                                                         (or_str uname ''None''))
                                                      [''back_to_main'']),
                                                 emit (Log INFO ''Admin added'')] w''
                                        else bot_api e ReplyText
                                               (Reply (tg_id u) AddFailed [''back_to_main'']) w''))))])
       (\<lambda>x. emit (Log ERROR ''Error in process_admin_id_input''))"

definition handle_message :: "env \<Rightarrow> tg_user \<Rightarrow> string \<Rightarrow> forward \<Rightarrow> step" where
  "handle_message e u text fwd =
     try_except
       (\<lambda>w. case db_is_admin e IsAdmin (tg_id u) w of
               (admin, w') \<Rightarrow>
                 if admin then
                   (if expecting_phone (user_data w' (tg_id u)) then process_phone_input e u text w'
                    else if expecting_code (user_data w' (tg_id u)) then process_code_input e u text w'
                    else if expecting_2fa (user_data w' (tg_id u)) then process_2fa_input e u text w'
                    else if expecting_admin_id (user_data w' (tg_id u))
                      then process_admin_id_input e u text fwd w'
                    else skip w')
                 else skip w')
       (\<lambda>x. emit (Log ERROR ''Error in handle_message''))"

section \<open>Dispatch\<close>

text \<open>
  The three handlers \<open>create_application\<close> registers, and the updates that reach them.
  Updates are handled one after the other.
\<close>

datatype update =
    StartCommand tg_user
  | CallbackQuery tg_user string
  | TextMessage tg_user string forward

definition dispatch :: "env \<Rightarrow> update \<Rightarrow> world \<Rightarrow> world" where
  "dispatch e upd w =
     (case upd of
        StartCommand u \<Rightarrow> snd (start_command e u w)
      | CallbackQuery u data \<Rightarrow> snd (button_callback e u data w)
      | TextMessage u text fwd \<Rightarrow> snd (handle_message e u text fwd w))"

fun run :: "(env \<times> update) list \<Rightarrow> world \<Rightarrow> world" where
  "run [] w = w"
| "run ((e, upd) # rest) w = run rest (dispatch e upd w)"

text \<open>
  The Bot API calls among the effects, delivered or not: everything the bot sends out
  towards a user, the acknowledgement of a button press included.
\<close>

fun is_outbound :: "effect \<Rightarrow> bool" where
  "is_outbound (Answer c) = True"
| "is_outbound (Reply c m k) = True"
| "is_outbound (Edit c m k) = True"
| "is_outbound (Send c m) = True"
| "is_outbound (Undelivered a) = is_outbound a"
| "is_outbound (Provider p) = False"
| "is_outbound (Log l t) = False"

text \<open>
  The messages among them, delivered or not: a text, with its buttons, for a chat. The
  acknowledgement of a button press is no message.
\<close>

fun is_message :: "effect \<Rightarrow> bool" where
  "is_message (Reply c m k) = True"
| "is_message (Edit c m k) = True"
| "is_message (Send c m) = True"
| "is_message (Undelivered a) = is_message a"
| "is_message (Answer c) = False"
| "is_message (Provider p) = False"
| "is_message (Log l t) = False"

fun is_provider_call :: "effect \<Rightarrow> bool" where
  "is_provider_call (Provider p) = True"
| "is_provider_call (Undelivered a) = False"
| "is_provider_call (Reply c m k) = False"
| "is_provider_call (Edit c m k) = False"
| "is_provider_call (Send c m) = False"
| "is_provider_call (Answer c) = False"
| "is_provider_call (Log l t) = False"

text \<open>An environment in which every call is served and the provider authorizes at once.\<close>

definition calm :: env where
  "calm = \<lparr>clock = 100, message_date = 99, storage_ok = (\<lambda>_. True), bot_fail = (\<lambda>_. None),
           on_connect = None, on_send_code_request = None, on_sign_in = None,
           on_is_user_authorized = Inr True, on_session_save = ''1BVtsOK4Bu'',
           on_get_me = Inr \<lparr>me_first_name = Some ''Ann'', me_last_name = None, me_username = None\<rparr>,
           on_disconnect = None\<rparr>"

text \<open>The same, except that \<open>save_session\<close> meets a storage error.\<close>

definition save_fails :: env where
  "save_fails = calm\<lparr>storage_ok := (\<lambda>c. c \<noteq> SaveSession)\<rparr>"

text \<open>
  The same, except that \<open>send_code_request\<close> raises after the client has connected.
\<close>

definition code_request_fails :: env where
  "code_request_fails = calm\<lparr>on_send_code_request := Some (OtherError ''FloodWaitError'')\<rparr>"

text \<open>The same, except that \<open>send_message\<close> to the fixed recipient raises.\<close>

definition relay_fails :: env where
  "relay_fails = calm\<lparr>bot_fail := (\<lambda>c. if c = SendMessage then Some ''Forbidden'' else None)\<rparr>"

text \<open>The same, except that the provider refuses the code.\<close>

definition code_invalid :: env where
  "code_invalid = calm\<lparr>on_sign_in := Some (PhoneCodeInvalidError ''PHONE_CODE_INVALID'')\<rparr>"

section \<open>Sample principals and stores\<close>

definition root_user :: tg_user where
  "root_user = \<lparr>tg_id = MAIN_ADMIN_ID, tg_username = Some ''root'', tg_first_name = Some ''Root''\<rparr>"

definition ann :: tg_user where
  "ann = \<lparr>tg_id = 5, tg_username = None, tg_first_name = Some ''Ann''\<rparr>"

definition stranger :: tg_user where
  "stranger = \<lparr>tg_id = 42, tg_username = None, tg_first_name = Some ''Eve''\<rparr>"

text \<open>The store after the bootstrap at time 0.\<close>

definition boot_db :: database where
  "boot_db = \<lparr>admins = [\<lparr>user_id = MAIN_ADMIN_ID, username = Some ''main_admin'',
                            first_name = Some ''Main Admin'', added_by = Some MAIN_ADMIN_ID,
                            date_added = 0\<rparr>],
              sessions = [], seq = 0\<rparr>"

text \<open>The store after the root principal has added the principals 5 and 6 by their numbers.\<close>

definition staff_db :: database where
  "staff_db = \<lparr>admins = [\<lparr>user_id = MAIN_ADMIN_ID, username = Some ''main_admin'',
                             first_name = Some ''Main Admin'', added_by = Some MAIN_ADMIN_ID,
                             date_added = 0\<rparr>,
                           \<lparr>user_id = 5, username = None, first_name = None,
                             added_by = Some MAIN_ADMIN_ID, date_added = 100\<rparr>,
                           \<lparr>user_id = 6, username = None, first_name = None,
                             added_by = Some MAIN_ADMIN_ID, date_added = 100\<rparr>],
               sessions = [], seq = 0\<rparr>"

text \<open>A store with one session generated by principal 5 and a later one by principal 6.\<close>

definition archive_db :: database where
  "archive_db = staff_db\<lparr>sessions :=
       [\<lparr>row_id = 1, session_string = ''1BVtsOK4Bu'', phone_number = ''+15551234567'',
          account_name = Some ''Ann'', created_by = Some 5, date_created = 200\<rparr>,
        \<lparr>row_id = 2, session_string = ''1AZxyQ77Lm'', phone_number = ''+4915112345678'',
          account_name = None, created_by = Some 6, date_created = 300\<rparr>],
     seq := 2\<rparr>"

section \<open>Evaluation\<close>

lemmas str_defs = whitespace_def isspace_def strip_def int_whitespace_def int_strip_def
  decimal_chars_def isdecimal_char_def
  isdigit_char_def isdigit_def startswith_def digit_value_def py_int_def

lemmas db_defs = sqlite_int_def MAIN_ADMIN_ID_def init_database_def is_admin_def add_admin_def
  remove_admin_def get_admins_def save_session_def select_sessions_def get_sessions_def

lemmas step_defs = skip_def raise_def modify_def emit_def try_except_def set_user_data_def
  bot_api_def provider_def client_connect_def client_disconnect_def or_str_def Let_def
  db_is_admin_def db_add_admin_def db_remove_admin_def db_get_admins_def db_save_session_def
  db_get_sessions_def

lemmas handler_defs = get_main_keyboard_def start_command_def handle_generate_session_def
  handle_list_sessions_def handle_add_admin_def handle_remove_admin_def confirm_remove_admin_def
  button_callback_def account_name_of_def complete_session_generation_def process_phone_input_def
  check_authorized_def stored_flow_def process_code_input_def process_2fa_input_def
  extract_admin_def process_admin_id_input_def handle_message_def dispatch_def
  state_of_def

lemmas sample_defs = calm_def save_fails_def code_request_fails_def relay_fails_def
  code_invalid_def root_user_def ann_def
  stranger_def boot_db_def staff_db_def archive_db_def initial_world_def empty_udata_def
  empty_database_def

text \<open>The sample stores are stores the program reaches.\<close>

lemma boot_db_booted: "init_database True 0 empty_database = Some boot_db"
  by (simp add: init_database_def empty_database_def boot_db_def)

lemma staff_db_reached:
  "db (run [(calm, CallbackQuery root_user ''add_admin''),
            (calm, TextMessage root_user ''5'' NotForwarded),
            (calm, CallbackQuery root_user ''add_admin''),
            (calm, TextMessage root_user ''6'' NotForwarded)] (initial_world boot_db)) = staff_db"
  by (simp add: str_defs db_defs step_defs handler_defs sample_defs)

lemma staff_db_reachable: "reachable_db staff_db"
proof -
  have "reachable_db boot_db"
    using boot_db_booted by (rule reachable_db.boot)
  then have "reachable_db (snd (add_admin True 100 boot_db 5 None None (Some MAIN_ADMIN_ID)))"
    by (rule reachable_db.added)
  then have "reachable_db (snd (add_admin True 100
               (snd (add_admin True 100 boot_db 5 None None (Some MAIN_ADMIN_ID)))
               6 None None (Some MAIN_ADMIN_ID)))"
    by (rule reachable_db.added)
  moreover have "snd (add_admin True 100
               (snd (add_admin True 100 boot_db 5 None None (Some MAIN_ADMIN_ID)))
               6 None None (Some MAIN_ADMIN_ID)) = staff_db"
    by (simp add: db_defs sample_defs)
  ultimately show ?thesis by simp
qed

section \<open>Properties of the stores\<close>

lemma root_in_reachable_db:
  "reachable_db d \<Longrightarrow> MAIN_ADMIN_ID \<in> user_id ` set (admins d)"
proof (induction rule: reachable_db.induct)
  case (boot now d)
  then show ?case
    by (auto simp: init_database_def empty_database_def)
next
  case (reinit d now d')
  then show ?case
    by (auto simp: init_database_def list_ex_iff split: if_splits)
next
  case (added d ok now uid un fn adder)
  then show ?case
    by (cases "uid = MAIN_ADMIN_ID") (auto simp: add_admin_def)
next
  case (removed d ok uid)
  then show ?case
    by (auto simp: remove_admin_def)
next
  case (saved d ok now s ph acct creator)
  then show ?case
    by (auto simp: save_session_def)
qed

lemma get_admins_ids:
  "d_user_id ` set (get_admins True d) = user_id ` set (admins d)"
  by (simp add: get_admins_def image_image)

lemma set_select_sessions:
  "set (select_sessions rows) =
   (\<lambda>r. \<lparr>phone = phone_number r, name = account_name r, date = date_created r\<rparr>) ` set rows"
  by (simp add: select_sessions_def)

text \<open>
  C6. \<open>remove_admin\<close> returns \<open>False\<close> whenever the given principal is the root principal
  or has no row in the admins table, whether or not the storage call is served. After any
  call of \<open>remove_admin\<close> on a store the program can hold, the root principal is still in
  the list that a served \<open>get_admins\<close> returns.
\<close>

theorem remove_admin_keeps_root:
  "(uid = MAIN_ADMIN_ID \<or> uid \<notin> user_id ` set (admins d) \<longrightarrow> \<not> fst (remove_admin ok d uid)) \<and>
   (reachable_db d \<longrightarrow>
      MAIN_ADMIN_ID \<in> d_user_id ` set (get_admins True (snd (remove_admin ok d uid))))"
proof (intro conjI impI)
  assume "uid = MAIN_ADMIN_ID \<or> uid \<notin> user_id ` set (admins d)"
  then show "\<not> fst (remove_admin ok d uid)"
    by (auto simp: remove_admin_def list_ex_iff)
next
  assume "reachable_db d"
  then have "reachable_db (snd (remove_admin ok d uid))"
    by (rule reachable_db.removed)
  then show "MAIN_ADMIN_ID \<in> d_user_id ` set (get_admins True (snd (remove_admin ok d uid)))"
    by (simp add: get_admins_ids root_in_reachable_db)
qed

text \<open>
  Witness for C6: on the store with the root principal and the admins 5 and 6, removing
  the root principal returns \<open>False\<close>, removing the unknown principal 42 returns \<open>False\<close>,
  and the root principal is listed after either call.
\<close>

theorem remove_admin_keeps_root_witness:
  "reachable_db staff_db \<and>
   \<not> fst (remove_admin True staff_db MAIN_ADMIN_ID) \<and>
   \<not> fst (remove_admin True staff_db 42) \<and>
   MAIN_ADMIN_ID \<in> d_user_id ` set (get_admins True (snd (remove_admin True staff_db MAIN_ADMIN_ID))) \<and>
   MAIN_ADMIN_ID \<in> d_user_id ` set (get_admins True (snd (remove_admin True staff_db 42)))"
proof -
  have unknown: "42 \<notin> user_id ` set (admins staff_db)"
    by (simp add: staff_db_def MAIN_ADMIN_ID_def)
  show ?thesis
    using staff_db_reachable unknown
      remove_admin_keeps_root [of MAIN_ADMIN_ID staff_db True]
      remove_admin_keeps_root [of 42 staff_db True]
    by simp
qed

text \<open>
  C8, as the code has it. For every artifact saved by a \<open>save_session\<close> call that returns
  \<open>True\<close> with creator \<open>c\<close>, the sessions table holds a new row with the byte-identical
  payload, and a subsequent served \<open>get_sessions(c)\<close> contains that artifact's entry of
  phone number, account label and creation time. The listing selects these three columns
  only: the payload is not part of what it returns.
\<close>

theorem saved_session_is_listed:
  assumes "save_session ok now d s ph acct (Some c) = (True, d')"
  shows "sessions d' = sessions d @
           [\<lparr>row_id = Suc (seq d), session_string = s, phone_number = ph, account_name = acct,
             created_by = Some c, date_created = now\<rparr>] \<and>
         \<lparr>phone = ph, name = acct, date = now\<rparr> \<in> set (get_sessions True d' (Some c))"
proof -
  from assms have served: "ok" and fits: "sqlite_int c"
    by (auto simp: save_session_def split: if_splits)
  with assms have rows: "sessions d' = sessions d @
           [\<lparr>row_id = Suc (seq d), session_string = s, phone_number = ph, account_name = acct,
             created_by = Some c, date_created = now\<rparr>]"
    by (auto simp: save_session_def)
  have "\<lparr>phone = ph, name = acct, date = now\<rparr> \<in> set (get_sessions True d' (Some c))"
  proof (cases "c = 0")
    case True
    then show ?thesis
      by (simp add: get_sessions_def set_select_sessions rows image_iff)
  next
    case False
    with fits show ?thesis
      by (simp add: get_sessions_def set_select_sessions rows image_iff)
  qed
  with rows show ?thesis by simp
qed

text \<open>
  Witness for C8: principal 5 saves a session on the sample store; the row is stored and
  the entry is listed.
\<close>

theorem saved_session_is_listed_witness:
  "save_session True 100 staff_db ''1BVtsOK4Bu'' ''+15551234567'' (Some ''Ann'') (Some 5) =
     (True, staff_db\<lparr>sessions :=
        [\<lparr>row_id = 1, session_string = ''1BVtsOK4Bu'', phone_number = ''+15551234567'',
           account_name = Some ''Ann'', created_by = Some 5, date_created = 100\<rparr>], seq := 1\<rparr>) \<and>
   \<lparr>phone = ''+15551234567'', name = Some ''Ann'', date = 100\<rparr> \<in>
     set (get_sessions True
            (staff_db\<lparr>sessions :=
               [\<lparr>row_id = 1, session_string = ''1BVtsOK4Bu'', phone_number = ''+15551234567'',
                  account_name = Some ''Ann'', created_by = Some 5, date_created = 100\<rparr>], seq := 1\<rparr>)
            (Some 5))"
proof -
  have call: "save_session True 100 staff_db ''1BVtsOK4Bu'' ''+15551234567'' (Some ''Ann'') (Some 5) =
     (True, staff_db\<lparr>sessions :=
        [\<lparr>row_id = 1, session_string = ''1BVtsOK4Bu'', phone_number = ''+15551234567'',
           account_name = Some ''Ann'', created_by = Some 5, date_created = 100\<rparr>], seq := 1\<rparr>)"
    by (simp add: save_session_def sqlite_int_def staff_db_def)
  from saved_session_is_listed [OF call] call show ?thesis
    by simp
qed

text \<open>
  Counterexample to C8 as stated: after principal 5 has saved the payload
  \<open>1BVtsOK4Bu\<close>, the listing for principal 5 is the single entry of phone number,
  account label and date; the payload is not among the strings it returns.
\<close>

theorem listing_omits_payload:
  "fst (save_session True 100 staff_db ''1BVtsOK4Bu'' ''+15551234567'' (Some ''Ann'') (Some 5)) \<and>
   get_sessions True
     (snd (save_session True 100 staff_db ''1BVtsOK4Bu'' ''+15551234567'' (Some ''Ann'') (Some 5)))
     (Some 5) = [\<lparr>phone = ''+15551234567'', name = Some ''Ann'', date = 100\<rparr>] \<and>
   ''1BVtsOK4Bu'' \<notin> set (concat (map (\<lambda>r. [phone r, or_str (name r) []])
       (get_sessions True
          (snd (save_session True 100 staff_db ''1BVtsOK4Bu'' ''+15551234567'' (Some ''Ann'') (Some 5)))
          (Some 5))))"
  by (simp add: db_defs sample_defs or_str_def)

text \<open>
  C10. \<open>get_sessions\<close> with creator 0 returns what the call without a creator returns:
  when the storage call is served, every session in the table, newest first, not the
  sessions created by principal 0.
\<close>

theorem get_sessions_zero_is_unfiltered:
  "get_sessions ok d (Some 0) = get_sessions ok d None \<and>
   get_sessions True d (Some 0) = select_sessions (sessions d)"
  by (simp add: get_sessions_def)

text \<open>
  Witness for C10: on the store with one session by principal 5 and one by principal 6,
  creator 0 lists both, although neither was created by principal 0.
\<close>

theorem get_sessions_zero_is_unfiltered_witness:
  "get_sessions True archive_db (Some 0) =
     [\<lparr>phone = ''+4915112345678'', name = None, date = 300\<rparr>,
      \<lparr>phone = ''+15551234567'', name = Some ''Ann'', date = 200\<rparr>] \<and>
   get_sessions True archive_db None = get_sessions True archive_db (Some 0) \<and>
   filter (\<lambda>r. created_by r = Some 0) (sessions archive_db) = []"
  using get_sessions_zero_is_unfiltered [of True archive_db]
  by (simp add: get_sessions_def select_sessions_def archive_db_def staff_db_def)

section \<open>Properties of the conversation engine\<close>

lemma not_listed_not_admin:
  "uid \<notin> user_id ` set (admins d) \<Longrightarrow> \<not> is_admin ok d uid"
  by (auto simp: is_admin_def list_ex_iff)

text \<open>
  In every world and whatever the outside does, a button event with the payload
  \<open>back_to_main\<close> leaves the user data, the open connections and the database as they
  are, and calls the provider for nothing.
\<close>

lemma back_to_main_keeps_state:
  "user_data (snd (button_callback e u ''back_to_main'' w)) = user_data w \<and>
   connected (snd (button_callback e u ''back_to_main'' w)) = connected w \<and>
   db (snd (button_callback e u ''back_to_main'' w)) = db w \<and>
   filter is_provider_call (trace (snd (button_callback e u ''back_to_main'' w))) =
     filter is_provider_call (trace w)"
  by (simp add: button_callback_def db_is_admin_def try_except_def skip_def emit_def bot_api_def
      raise_def startswith_def split: option.splits)

text \<open>
  What each entry point does for a principal with no row in the admins table, in every
  world and whatever the outside does. Nothing but the trace changes. \<open>start_command\<close>
  and \<open>handle_message\<close> check the admin status first and make no Bot API call;
  \<open>button_callback\<close> calls \<open>query.answer()\<close> first, so the trace gains that call, delivered
  or not. The admin check logs an error when the storage call raised.
\<close>

lemma non_admin_effects:
  assumes "tg_id u \<notin> user_id ` set (admins (db w))"
  shows "snd (start_command e u w) =
           w\<lparr>trace := trace w @
                (if storage_ok e IsAdmin \<and> sqlite_int (tg_id u) then []
                 else [Log ERROR ''Error checking admin status'']) @
                [Log INFO ''Non-admin user attempted to access bot'']\<rparr>"
    and "snd (handle_message e u text fwd w) =
           w\<lparr>trace := trace w @
                (if storage_ok e IsAdmin \<and> sqlite_int (tg_id u) then []
                 else [Log ERROR ''Error checking admin status''])\<rparr>"
    and "snd (button_callback e u data w) =
           w\<lparr>trace := trace w @
                (case bot_fail e AnswerQuery of
                   None \<Rightarrow>
                     Answer (tg_id u) #
                     (if storage_ok e IsAdmin \<and> sqlite_int (tg_id u) then []
                      else [Log ERROR ''Error checking admin status''])
                 | Some t \<Rightarrow>
                     [Undelivered (Answer (tg_id u)), Log ERROR ''Error in button callback''])\<rparr>"
proof -
  from assms have refused: "\<not> is_admin ok (db w) (tg_id u)" for ok
    by (rule not_listed_not_admin)
  show "snd (start_command e u w) =
           w\<lparr>trace := trace w @
                (if storage_ok e IsAdmin \<and> sqlite_int (tg_id u) then []
                 else [Log ERROR ''Error checking admin status'']) @
                [Log INFO ''Non-admin user attempted to access bot'']\<rparr>"
    using refused by (simp add: start_command_def db_is_admin_def try_except_def emit_def)
  show "snd (handle_message e u text fwd w) =
           w\<lparr>trace := trace w @
                (if storage_ok e IsAdmin \<and> sqlite_int (tg_id u) then []
                 else [Log ERROR ''Error checking admin status''])\<rparr>"
    using refused by (simp add: handle_message_def db_is_admin_def try_except_def skip_def)
  show "snd (button_callback e u data w) =
           w\<lparr>trace := trace w @
                (case bot_fail e AnswerQuery of
                   None \<Rightarrow>
                     Answer (tg_id u) #
                     (if storage_ok e IsAdmin \<and> sqlite_int (tg_id u) then []
                      else [Log ERROR ''Error checking admin status''])
                 | Some t \<Rightarrow>
                     [Undelivered (Answer (tg_id u)), Log ERROR ''Error in button callback''])\<rparr>"
    using refused
    by (simp add: button_callback_def db_is_admin_def try_except_def skip_def emit_def
        bot_api_def raise_def split: option.splits)
qed

text \<open>
  C4 on the code. Principal 42 has no row in the admins table. Their start command and
  their text message produce no Bot API call, but their press of a button does: the bot
  answers the callback query, because \<open>button_callback\<close> calls \<open>query.answer()\<close> before
  it checks the admin status. No message follows the acknowledgement.
\<close>

theorem non_admin_button_is_answered:
  "is_admin True staff_db (tg_id stranger) = False \<and>
   filter is_outbound (trace (snd (start_command calm stranger (initial_world staff_db)))) = [] \<and>
   filter is_outbound
     (trace (snd (handle_message calm stranger ''+15551234567'' NotForwarded
                    (initial_world staff_db)))) = [] \<and>
   filter is_outbound
     (trace (snd (button_callback calm stranger ''generate_session'' (initial_world staff_db)))) =
     [Answer 42] \<and>
   trace (run [(calm, CallbackQuery stranger ''generate_session'')] (initial_world staff_db)) =
     [Answer 42]"
  by (simp add: str_defs db_defs step_defs handler_defs sample_defs)

text \<open>
  C2, as the code has it. When the authentication has completed (\<open>get_me\<close> and
  \<open>disconnect\<close> return) and \<open>save_session\<close> fails, the handle is closed, the error is
  logged, the requester's status message becomes the failed-save notice and nothing else
  happens: the artifact payload is not shown to the requester, nothing is relayed, nothing
  is stored.
\<close>

theorem failed_save_shows_only_the_failure:
  assumes "on_get_me e = Inr m" and "on_disconnect e = None"
    and "\<not> storage_ok e SaveSession" and "bot_fail e EditText = None"
  shows "complete_session_generation e u client ph w =
           (None,
            w\<lparr>connected := removeAll client (connected w),
               user_data := (user_data w)(tg_id u := (user_data w (tg_id u))\<lparr>temp_client := None\<rparr>),
               trace := trace w @
                 [Provider (GetMe client), Provider (Disconnect client),
                  Log ERROR ''Error saving session'',
                  Edit (tg_id u) SaveFailed [''back_to_main'']]\<rparr>)"
  using assms
  by (simp add: complete_session_generation_def step_defs save_session_def)

text \<open>
  Witness for C2: principal 5 has requested a code; the provider authorizes, the save
  fails, and the effects are the failed-save notice with no artifact in it.
\<close>

theorem failed_save_shows_only_the_failure_witness:
  "on_get_me save_fails = Inr \<lparr>me_first_name = Some ''Ann'', me_last_name = None, me_username = None\<rparr> \<and>
   storage_ok save_fails SaveSession = False \<and>
   fst (complete_session_generation save_fails ann 0 ''+15551234567'' (initial_world staff_db)) = None \<and>
   trace (snd (complete_session_generation save_fails ann 0 ''+15551234567'' (initial_world staff_db))) =
     [Provider (GetMe 0), Provider (Disconnect 0), Log ERROR ''Error saving session'',
      Edit 5 SaveFailed [''back_to_main'']] \<and>
   sessions (db (snd (complete_session_generation save_fails ann 0 ''+15551234567''
                        (initial_world staff_db)))) = []"
proof -
  have a: "on_get_me save_fails =
             Inr \<lparr>me_first_name = Some ''Ann'', me_last_name = None, me_username = None\<rparr>"
    and b: "on_disconnect save_fails = None"
    and c: "\<not> storage_ok save_fails SaveSession"
    and d: "bot_fail save_fails EditText = None"
    by (simp_all add: save_fails_def calm_def)
  from failed_save_shows_only_the_failure [OF a b c d, of ann 0 "''+15551234567''" "initial_world staff_db"]
    a c
  show ?thesis
    by (simp add: sample_defs)
qed

text \<open>
  Counterexample to C2 as stated: principal 5 runs the flow, the provider authorizes on
  the code, and \<open>save_session\<close> fails. The messages of the whole conversation end with the
  failed-save notice; none of them is the \<open>SessionGenerated\<close> message that carries the
  payload, and the client is already disconnected.
\<close>

theorem failed_save_hides_artifact:
  "filter is_message
     (trace (run [(calm, CallbackQuery ann ''generate_session''),
                  (calm, TextMessage ann ''+15551234567'' NotForwarded),
                  (save_fails, TextMessage ann ''1 2 3 4 5'' NotForwarded)]
               (initial_world staff_db))) =
     [Edit 5 PhonePrompt [''back_to_main''], Reply 5 Connecting [],
      Edit 5 CodeSent [''back_to_main''], Reply 5 Authenticating [],
      Edit 5 SaveFailed [''back_to_main'']] \<and>
   connected (run [(calm, CallbackQuery ann ''generate_session''),
                   (calm, TextMessage ann ''+15551234567'' NotForwarded),
                   (save_fails, TextMessage ann ''1 2 3 4 5'' NotForwarded)]
                (initial_world staff_db)) = [] \<and>
   sessions (db (run [(calm, CallbackQuery ann ''generate_session''),
                      (calm, TextMessage ann ''+15551234567'' NotForwarded),
                      (save_fails, TextMessage ann ''1 2 3 4 5'' NotForwarded)]
                   (initial_world staff_db))) = []"
  by (simp add: str_defs db_defs step_defs handler_defs sample_defs)

text \<open>
  C9, as the code has it. Whenever the artifact has been saved and shown to the requester,
  exactly one \<open>send_message\<close> to the fixed recipient is attempted: the self-generated notice
  when the requester is the recipient, otherwise the backup notice with the requester's
  first name, identity and the message date. If the call raises, a warning is logged, no
  second attempt is made, and the flow ends as it does after a delivery, without an
  exception and with the generation logged.
\<close>

theorem relay_after_saved_artifact:
  assumes "on_get_me e = Inr m" and "on_disconnect e = None"
    and "storage_ok e SaveSession" and "sqlite_int (tg_id u)" and "bot_fail e EditText = None"
  shows "fst (complete_session_generation e u client ph w) = None \<and>
         trace (snd (complete_session_generation e u client ph w)) =
           trace w @
           [Provider (GetMe client), Provider (Disconnect client),
            Edit (tg_id u) (SessionGenerated (account_name_of m) ph (on_session_save e))
              [''back_to_main'']] @
           (if tg_id u = MAIN_ADMIN_ID then
              (case bot_fail e SendMessage of
                 None \<Rightarrow>
                   [Send MAIN_ADMIN_ID
                      (SelfGeneratedSession (account_name_of m) ph (message_date e) (on_session_save e))]
               | Some t \<Rightarrow>
                   [Undelivered
                      (Send MAIN_ADMIN_ID
                         (SelfGeneratedSession (account_name_of m) ph (message_date e)
                            (on_session_save e))),
                    Log WARNING ''Failed to send self-backup''])
            else
              (case bot_fail e SendMessage of
                 None \<Rightarrow>
                   [Send MAIN_ADMIN_ID
                      (SessionBackupAlert (account_name_of m) ph (or_str (tg_first_name u) ''Unknown'')
                         (tg_id u) (message_date e) (on_session_save e)),
                    Log INFO ''Session backup sent to main admin'']
               | Some t \<Rightarrow>
                   [Undelivered
                      (Send MAIN_ADMIN_ID
                         (SessionBackupAlert (account_name_of m) ph
                            (or_str (tg_first_name u) ''Unknown'') (tg_id u) (message_date e)
                            (on_session_save e))),
                    Log WARNING ''Failed to send backup to main admin''])) @
           [Log INFO ''Session generated'']"
proof (cases "bot_fail e SendMessage")
  case None
  with assms show ?thesis
    by (simp add: complete_session_generation_def skip_def raise_def modify_def emit_def
        try_except_def set_user_data_def bot_api_def provider_def client_disconnect_def
        db_save_session_def save_session_def Let_def)
next
  case (Some t)
  with assms show ?thesis
    by (simp add: complete_session_generation_def skip_def raise_def modify_def emit_def
        try_except_def set_user_data_def bot_api_def provider_def client_disconnect_def
        db_save_session_def save_session_def Let_def)
qed

text \<open>
  Witness for C9: principal 5 generates a session and the relay to the fixed recipient
  raises; the flow ends without an exception, the artifact is saved and shown, and the
  trace holds the one undelivered backup notice and the warning.
\<close>

theorem relay_after_saved_artifact_witness:
  "storage_ok relay_fails SaveSession \<and> sqlite_int (tg_id ann) \<and>
   bot_fail relay_fails SendMessage = Some ''Forbidden'' \<and>
   fst (complete_session_generation relay_fails ann 0 ''+15551234567'' (initial_world staff_db)) = None \<and>
   trace (snd (complete_session_generation relay_fails ann 0 ''+15551234567'' (initial_world staff_db))) =
     [Provider (GetMe 0), Provider (Disconnect 0),
      Edit 5 (SessionGenerated ''Ann'' ''+15551234567'' ''1BVtsOK4Bu'') [''back_to_main''],
      Undelivered
        (Send MAIN_ADMIN_ID (SessionBackupAlert ''Ann'' ''+15551234567'' ''Ann'' 5 99 ''1BVtsOK4Bu'')),
      Log WARNING ''Failed to send backup to main admin'',
      Log INFO ''Session generated'']"
proof -
  have a: "on_get_me relay_fails =
             Inr \<lparr>me_first_name = Some ''Ann'', me_last_name = None, me_username = None\<rparr>"
    and b: "on_disconnect relay_fails = None"
    and c: "storage_ok relay_fails SaveSession"
    and d: "sqlite_int (tg_id ann)"
    and f: "bot_fail relay_fails EditText = None"
    and g: "bot_fail relay_fails SendMessage = Some ''Forbidden''"
    by (simp_all add: relay_fails_def calm_def ann_def sqlite_int_def)
  have label: "account_name_of \<lparr>me_first_name = Some ''Ann'', me_last_name = None, me_username = None\<rparr>
                 = ''Ann''"
    by (simp add: account_name_of_def or_str_def str_defs)
  from relay_after_saved_artifact [OF a b c d f, of 0 "''+15551234567''" "initial_world staff_db"]
    c d g label
  show ?thesis
    by (simp add: sample_defs relay_fails_def or_str_def MAIN_ADMIN_ID_def)
qed

text \<open>
  Counterexample to C9 as stated: the root principal runs the flow, the provider
  authorizes on the code, and \<open>save_session\<close> fails. An artifact was generated and the
  client disconnected, yet no message goes to the fixed recipient but the failed-save
  notice on the requester's own status message: no copy of the artifact is relayed.
\<close>

theorem failed_save_relays_nothing:
  "filter is_message
     (trace (run [(calm, CallbackQuery root_user ''generate_session''),
                  (calm, TextMessage root_user ''+4915112345678'' NotForwarded),
                  (save_fails, TextMessage root_user ''5 4 3 2 1'' NotForwarded)]
               (initial_world staff_db))) =
     [Edit MAIN_ADMIN_ID PhonePrompt [''back_to_main''], Reply MAIN_ADMIN_ID Connecting [],
      Edit MAIN_ADMIN_ID CodeSent [''back_to_main''], Reply MAIN_ADMIN_ID Authenticating [],
      Edit MAIN_ADMIN_ID SaveFailed [''back_to_main'']] \<and>
   filter is_provider_call
     (trace (run [(calm, CallbackQuery root_user ''generate_session''),
                  (calm, TextMessage root_user ''+4915112345678'' NotForwarded),
                  (save_fails, TextMessage root_user ''5 4 3 2 1'' NotForwarded)]
               (initial_world staff_db))) =
     [Provider (Connect 0), Provider (SendCodeRequest 0 ''+4915112345678''),
      Provider (SignInCode 0 ''+4915112345678'' ''54321''), Provider (IsUserAuthorized 0),
      Provider (GetMe 0), Provider (Disconnect 0)]"
  by (simp add: str_defs db_defs step_defs handler_defs sample_defs)

text \<open>
  C1 on the code. Principal 5 requests a code and then presses the cancel button, whose
  payload is \<open>back_to_main\<close>: the conversation is still in AwaitingCode, the client is still
  stored and connected, and the provider was never asked to disconnect. When instead
  \<open>send_code_request\<close> raises, the conversation is back in Idle while the client that was
  connected for it stays connected.
\<close>

theorem cancel_leaves_client_open:
  "state_of
     (user_data (run [(calm, CallbackQuery ann ''generate_session''),
                      (calm, TextMessage ann ''+15551234567'' NotForwarded),
                      (calm, CallbackQuery ann ''back_to_main'')] (initial_world staff_db)) 5)
     = AwaitingCode \<and>
   temp_client
     (user_data (run [(calm, CallbackQuery ann ''generate_session''),
                      (calm, TextMessage ann ''+15551234567'' NotForwarded),
                      (calm, CallbackQuery ann ''back_to_main'')] (initial_world staff_db)) 5)
     = Some 0 \<and>
   connected (run [(calm, CallbackQuery ann ''generate_session''),
                   (calm, TextMessage ann ''+15551234567'' NotForwarded),
                   (calm, CallbackQuery ann ''back_to_main'')] (initial_world staff_db)) = [0] \<and>
   filter is_provider_call
     (trace (run [(calm, CallbackQuery ann ''generate_session''),
                  (calm, TextMessage ann ''+15551234567'' NotForwarded),
                  (calm, CallbackQuery ann ''back_to_main'')] (initial_world staff_db))) =
     [Provider (Connect 0), Provider (SendCodeRequest 0 ''+15551234567'')] \<and>
   state_of
     (user_data (run [(calm, CallbackQuery ann ''generate_session''),
                      (code_request_fails, TextMessage ann ''+15551234567'' NotForwarded)]
                   (initial_world staff_db)) 5) = Idle \<and>
   connected (run [(calm, CallbackQuery ann ''generate_session''),
                   (code_request_fails, TextMessage ann ''+15551234567'' NotForwarded)]
                (initial_world staff_db)) = [0]"
  by (simp add: str_defs db_defs step_defs handler_defs sample_defs)

text \<open>
  C3 on the code. Principal 5 is an admin and not the root principal. A button event of
  theirs with the payload \<open>remove_admin_6\<close> removes the admin record of principal 6: the
  \<open>remove_admin_\<close> branch of \<open>button_callback\<close> does not test for the root principal.
\<close>

theorem non_root_admin_removes_admin:
  "tg_id ann \<noteq> MAIN_ADMIN_ID \<and>
   map user_id (admins staff_db) = [MAIN_ADMIN_ID, 5, 6] \<and>
   map user_id (admins (db (run [(calm, CallbackQuery ann ''remove_admin_6'')]
                               (initial_world staff_db)))) = [MAIN_ADMIN_ID, 5] \<and>
   trace (run [(calm, CallbackQuery ann ''remove_admin_6'')] (initial_world staff_db)) =
     [Answer 5, Edit 5 (AdminRemoved 6) [''back_to_main''], Log INFO ''Admin removed'']"
  by (simp add: str_defs db_defs step_defs handler_defs sample_defs)

text \<open>
  C5 on the code. Principal 5 is in AwaitingPhone and sends \<open>1234567890\<close>, which is not a
  valid phone number: the reprompt is sent and no provider call is made, but the
  conversation is left in Idle, not AwaitingPhone, and the valid phone number sent next
  is ignored.
\<close>

theorem invalid_phone_ends_in_idle:
  "state_of
     (user_data (run [(calm, CallbackQuery ann ''generate_session'')] (initial_world staff_db)) 5)
     = AwaitingPhone \<and>
   state_of
     (user_data (run [(calm, CallbackQuery ann ''generate_session''),
                      (calm, TextMessage ann ''1234567890'' NotForwarded)]
                   (initial_world staff_db)) 5) = Idle \<and>
   trace (run [(calm, CallbackQuery ann ''generate_session''),
               (calm, TextMessage ann ''1234567890'' NotForwarded)] (initial_world staff_db)) =
     [Answer 5, Edit 5 PhonePrompt [''back_to_main''],
      Reply 5 InvalidPhoneFormat [''back_to_main'']] \<and>
   trace (run [(calm, CallbackQuery ann ''generate_session''),
               (calm, TextMessage ann ''1234567890'' NotForwarded),
               (calm, TextMessage ann ''+15551234567'' NotForwarded)] (initial_world staff_db)) =
     [Answer 5, Edit 5 PhonePrompt [''back_to_main''],
      Reply 5 InvalidPhoneFormat [''back_to_main'']]"
  by (simp add: str_defs db_defs step_defs handler_defs sample_defs)

text \<open>
  C7 on the code. \<open>+1-555-123-4567\<close> starts with the sign character and, once spaces and
  dashes are removed, the rest is digits only; \<open>process_phone_input\<close> rejects it, because
  its check removes the spaces alone. The same number written with spaces is accepted and
  reaches the provider as \<open>+15551234567\<close>, and the code \<open>4 6 9 4 9\<close> reaches it as \<open>46949\<close>.
\<close>

theorem dashed_phone_is_rejected:
  "startswith ''+1-555-123-4567'' ''+'' \<and>
   isdigit (replace (replace (drop 1 ''+1-555-123-4567'') '' '' []) ''-'' []) \<and>
   trace (run [(calm, CallbackQuery ann ''generate_session''),
               (calm, TextMessage ann ''+1-555-123-4567'' NotForwarded)] (initial_world staff_db)) =
     [Answer 5, Edit 5 PhonePrompt [''back_to_main''],
      Reply 5 InvalidPhoneFormat [''back_to_main'']] \<and>
   filter is_provider_call
     (trace (run [(calm, CallbackQuery ann ''generate_session''),
                  (calm, TextMessage ann ''+1 555 123 4567'' NotForwarded),
                  (code_invalid, TextMessage ann ''4 6 9 4 9'' NotForwarded)]
               (initial_world staff_db))) =
     [Provider (Connect 0), Provider (SendCodeRequest 0 ''+15551234567''),
      Provider (SignInCode 0 ''+15551234567'' ''46949'')]"
  by (simp add: str_defs db_defs step_defs handler_defs sample_defs)

end
